theory Spec2Isabelle
  imports Main
begin

section \<open>Python values and the operations the handler applies to them\<close>

text \<open>
  The event, the decoded payload, the credential mapping and the values handed back by
  the remote-storage client are ordinary Python objects. Dictionaries carry string keys
  (the first binding of a key in the list is the one the dictionary holds). Floats do
  not occur: a float behaves like \<open>PyInt\<close> for every operation used here.
\<close>

datatype pyval =
    PyNone
  | PyBool bool
  | PyInt int
  | PyStr string
  | PyBytes string
  | PyList "pyval list"
  | PyTuple "pyval list"
  | PyDict "(string \<times> pyval) list"

text \<open>Exceptions deriving from \<open>Exception\<close>; \<open>Error\<close> stands for any library exception.\<close>

datatype exn = KeyError | TypeError | IndexError | Error string

text \<open>Truth value testing, as in \<open>if folder:\<close>.\<close>

fun truthy :: "pyval \<Rightarrow> bool" where
  "truthy PyNone = False"
| "truthy (PyBool b) = b"
| "truthy (PyInt i) = (i \<noteq> 0)"
| "truthy (PyStr s) = (s \<noteq> [])"
| "truthy (PyBytes s) = (s \<noteq> [])"
| "truthy (PyList xs) = (xs \<noteq> [])"
| "truthy (PyTuple xs) = (xs \<noteq> [])"
| "truthy (PyDict d) = (d \<noteq> [])"

text \<open>\<open>obj[key]\<close> with a string key: only a dictionary accepts it.\<close>

fun getitem :: "pyval \<Rightarrow> string \<Rightarrow> exn + pyval" where
  "getitem (PyDict d) k = (case map_of d k of None \<Rightarrow> Inl KeyError | Some v \<Rightarrow> Inr v)"
| "getitem PyNone k = Inl TypeError"
| "getitem (PyBool b) k = Inl TypeError"
| "getitem (PyInt i) k = Inl TypeError"
| "getitem (PyStr s) k = Inl TypeError"
| "getitem (PyBytes s) k = Inl TypeError"
| "getitem (PyList xs) k = Inl TypeError"
| "getitem (PyTuple xs) k = Inl TypeError"

text \<open>Substring test, \<open>k in s\<close> on two strings.\<close>

fun str_contains :: "string \<Rightarrow> string \<Rightarrow> bool" where
  "str_contains k [] = (k = [])"
| "str_contains k (c # cs) = (take (length k) (c # cs) = k \<or> str_contains k cs)"

text \<open>\<open>key in obj\<close> with a string key.\<close>

fun contains :: "string \<Rightarrow> pyval \<Rightarrow> exn + bool" where
  "contains k (PyDict d) = Inr (map_of d k \<noteq> None)"
| "contains k (PyStr s) = Inr (str_contains k s)"
| "contains k (PyList xs) = Inr (List.member xs (PyStr k))"
| "contains k (PyTuple xs) = Inr (List.member xs (PyStr k))"
| "contains k (PyBytes s) = Inl TypeError"
| "contains k PyNone = Inl TypeError"
| "contains k (PyBool b) = Inl TypeError"
| "contains k (PyInt i) = Inl TypeError"

text \<open>\<open>obj[0]\<close>, as in \<open>folder[0]\<close>.\<close>

fun index0 :: "pyval \<Rightarrow> exn + pyval" where
  "index0 (PyList []) = Inl IndexError"
| "index0 (PyList (x # xs)) = Inr x"
| "index0 (PyTuple []) = Inl IndexError"
| "index0 (PyTuple (x # xs)) = Inr x"
| "index0 (PyStr []) = Inl IndexError"
| "index0 (PyStr (c # cs)) = Inr (PyStr [c])"
| "index0 (PyBytes []) = Inl IndexError"
| "index0 (PyBytes (c # cs)) = Inr (PyInt (of_char c))"
| "index0 (PyDict d) = Inl KeyError"
| "index0 PyNone = Inl TypeError"
| "index0 (PyBool b) = Inl TypeError"
| "index0 (PyInt i) = Inl TypeError"

text \<open>\<open>os.path.basename\<close> (posix): everything after the last slash.\<close>

definition basename :: "string \<Rightarrow> string" where
  "basename p = rev (takeWhile (\<lambda>c. c \<noteq> CHR ''/'') (rev p))"

section \<open>Effects, the outside world and the process state\<close>

datatype level = DEBUG | INFO | WARNING | ERROR

text \<open>
  Every call that leaves the process is recorded, in order. A log record keeps the level
  and the text of the message, with \<open>{}\<close> where the source interpolates a value.
\<close>

datatype effect =
    Log level string
  | Report string
  | ReportException
  | StorageGetBlob "string option" "string option"
  | BlobDownload string
  | HttpGet pyval
  | TempFile string
  | MegaLogin pyval pyval
  | MegaFindPath pyval
  | MegaCreateFolder pyval
  | MegaFind pyval
  | MegaUpload string "pyval option"
  | MegaRename pyval string

fun is_report :: "effect \<Rightarrow> bool" where
  "is_report (Report m) = True"
| "is_report ReportException = True"
| "is_report e = False"

fun is_http_get :: "effect \<Rightarrow> bool" where
  "is_http_get (HttpGet u) = True"
| "is_http_get e = False"

fun is_mega_call :: "effect \<Rightarrow> bool" where
  "is_mega_call (MegaLogin u p) = True"
| "is_mega_call (MegaFindPath f) = True"
| "is_mega_call (MegaCreateFolder f) = True"
| "is_mega_call (MegaFind f) = True"
| "is_mega_call (MegaUpload p d) = True"
| "is_mega_call (MegaRename e n) = True"
| "is_mega_call e = False"

fun is_error_log :: "effect \<Rightarrow> bool" where
  "is_error_log (Log lvl m) = (lvl = ERROR)"
| "is_error_log e = False"

fun is_credential_attempt :: "effect \<Rightarrow> bool" where
  "is_credential_attempt (StorageGetBlob b n) = True"
| "is_credential_attempt (BlobDownload b) = True"
| "is_credential_attempt (MegaLogin u p) = True"
| "is_credential_attempt e = False"

record response =
  status_code :: int
  content :: string

text \<open>
  What the libraries and remote services answer is not in the repository: it is a
  parameter. A call to a service takes the state \<open>'w\<close> of the outside world and returns
  its outcome (an exception or a value) with the world after the call, so the same call
  may answer differently at different times. \<open>b64_json_loads x\<close> is
  \<open>json.loads(base64.b64decode(x).decode('utf-8'))\<close>, \<open>urlparse_path u\<close> is
  \<open>urlparse(u).path\<close>, \<open>named_temporary_file\<close> chooses the name of a new temporary
  file, and \<open>m_upload\<close> is given the path, what the local file system holds there, and
  the destination.
\<close>

record 'w env =
  getenv :: "string \<Rightarrow> string option"
  b64_json_loads :: "pyval \<Rightarrow> exn + pyval"
  json_loads :: "string \<Rightarrow> exn + pyval"
  urlparse_path :: "pyval \<Rightarrow> exn + string"
  requests_get :: "'w \<Rightarrow> pyval \<Rightarrow> (exn + response) \<times> 'w"
  named_temporary_file :: "'w \<Rightarrow> (exn + string) \<times> 'w"
  storage_get_blob :: "'w \<Rightarrow> string option \<Rightarrow> string option \<Rightarrow> (exn + string option) \<times> 'w"
  blob_download_as_string :: "'w \<Rightarrow> string \<Rightarrow> (exn + string) \<times> 'w"
  m_login :: "'w \<Rightarrow> pyval \<Rightarrow> pyval \<Rightarrow> (exn + unit) \<times> 'w"
  m_find_path_descriptor :: "'w \<Rightarrow> pyval \<Rightarrow> (exn + pyval) \<times> 'w"
  m_create_folder :: "'w \<Rightarrow> pyval \<Rightarrow> (exn + pyval) \<times> 'w"
  m_find :: "'w \<Rightarrow> pyval \<Rightarrow> (exn + pyval) \<times> 'w"
  m_upload :: "'w \<Rightarrow> string \<Rightarrow> string option \<Rightarrow> pyval option \<Rightarrow> (exn + pyval) \<times> 'w"
  m_rename :: "'w \<Rightarrow> pyval \<Rightarrow> string \<Rightarrow> (exn + pyval) \<times> 'w"

datatype error_reporting_client = ErrorReportingClient

datatype mega = Mega

text \<open>
  The module globals \<open>_ERROR_REPORTING_CLIENT\<close> and \<open>_MEGA_CLIENT\<close>, the local file
  system (path to content), the outside world and the effects so far. \<open>_LOGGER\<close> is set
  by the call of \<open>_get_logger()\<close> at import time, before any invocation, so inside the
  handler \<open>_get_logger()\<close> returns the cached logger and a logging call only adds a
  record. Logging and reporting to the error-tracking service are taken not to raise.
\<close>

record 'w state =
  ERROR_REPORTING_CLIENT :: "error_reporting_client option"
  MEGA_CLIENT :: "mega option"
  fs :: "string \<Rightarrow> string option"
  world :: "'w"
  trace :: "effect list"

text \<open>How a block of the handler ends: an exception leaves it, it returns, or control goes on.\<close>

datatype 'a outcome = Raise exn | Return int | Continue 'a

definition emit :: "effect \<Rightarrow> 'w state \<Rightarrow> 'w state" where
  "emit e s = s\<lparr>trace := trace s @ [e]\<rparr>"

definition log :: "level \<Rightarrow> string \<Rightarrow> 'w state \<Rightarrow> 'w state" where
  "log lvl msg s = emit (Log lvl msg) s"

text \<open>\<open>_get_error_reporting_client\<close>: the client is created on first use and kept.\<close>

definition get_error_reporting_client :: "'w state \<Rightarrow> 'w state" where
  "get_error_reporting_client s =
     (if ERROR_REPORTING_CLIENT s \<noteq> None then s
      else s\<lparr>ERROR_REPORTING_CLIENT := Some ErrorReportingClient\<rparr>)"

definition report :: "string \<Rightarrow> 'w state \<Rightarrow> 'w state" where
  "report msg s = emit (Report msg) (get_error_reporting_client s)"

definition report_exception :: "'w state \<Rightarrow> 'w state" where
  "report_exception s = emit ReportException (get_error_reporting_client s)"

text \<open>A call to a service: the world moves on and the call is recorded.\<close>

definition call :: "effect \<Rightarrow> ('w \<Rightarrow> 'a \<times> 'w) \<Rightarrow> 'w state \<Rightarrow> 'a \<times> 'w state" where
  "call e f s = (case f (world s) of (r, w) \<Rightarrow> (r, emit e (s\<lparr>world := w\<rparr>)))"

section \<open>The credential loader and the memoized client\<close>

text \<open>\<open>_get_vars_dict\<close>, lines 60 to 71.\<close>

definition get_vars_dict :: "'w env \<Rightarrow> 'w state \<Rightarrow> (exn + pyval) \<times> 'w state" where
  "get_vars_dict env s =
     (case call (StorageGetBlob (getenv env ''VARS_BUCKET'') (getenv env ''VARS_BLOB''))
             (\<lambda>w. storage_get_blob env w (getenv env ''VARS_BUCKET'') (getenv env ''VARS_BLOB'')) s of
        (Inl ex, s1) \<Rightarrow> (Inl ex, s1)
      | (Inr None, s1) \<Rightarrow> (Inl (Error ''Failed to get info from blob''), s1)
      | (Inr (Some blob), s1) \<Rightarrow>
          (case call (BlobDownload blob) (\<lambda>w. blob_download_as_string env w blob) s1 of
             (Inl ex, s2) \<Rightarrow> (Inl ex, s2)
           | (Inr str, s2) \<Rightarrow> (json_loads env str, s2)))"

text \<open>
  The body of the second \<open>try\<close> of \<open>_get_mega_client\<close>, lines 43 and 44: the two
  subscripts are evaluated, then \<open>login\<close> is called.
\<close>

definition login_body :: "'w env \<Rightarrow> pyval \<Rightarrow> 'w state \<Rightarrow> (exn + unit) \<times> 'w state" where
  "login_body env vars s =
     (case getitem vars ''USERNAME'' of
        Inl ex \<Rightarrow> (Inl ex, s)
      | Inr u \<Rightarrow>
          (case getitem vars ''PASSWORD'' of
             Inl ex \<Rightarrow> (Inl ex, s)
           | Inr p \<Rightarrow>
               (case call (MegaLogin u p) (\<lambda>w. m_login env w u p) s of
                  (Inl ex, s1) \<Rightarrow> (Inl ex, s1)
                | (Inr x, s1) \<Rightarrow> (Inr (), log INFO ''Logged into Mega.'' s1))))"

text \<open>
  \<open>_get_mega_client\<close>, lines 31 to 49. The global is assigned on line 35, before the
  credentials are read. The message of line 46 subscripts \<open>vars\<close> again, which raises
  in its turn when the first subscript did.
\<close>

definition get_mega_client :: "'w env \<Rightarrow> 'w state \<Rightarrow> (exn + mega) \<times> 'w state" where
  "get_mega_client env s =
     (case MEGA_CLIENT s of
        Some m \<Rightarrow> (Inr m, s)
      | None \<Rightarrow>
          (case get_vars_dict env (s\<lparr>MEGA_CLIENT := Some Mega\<rparr>) of
             (Inl ex, s1) \<Rightarrow>
               (Inl ex, log ERROR ''Failed to get function's info from GCP Storage due to: {}'' s1)
           | (Inr vars, s1) \<Rightarrow>
               (case login_body env vars s1 of
                  (Inl ex, s2) \<Rightarrow>
                    (case getitem vars ''USERNAME'' of
                       Inl ex' \<Rightarrow> (Inl ex', s2)
                     | Inr u \<Rightarrow> (Inl ex, log ERROR ''Failed to log into Mega with username {} due to: {}'' s2))
                | (Inr x, s2) \<Rightarrow> (Inr Mega, s2))))"

text \<open>\<open>_get_mega_client().op(args)\<close>: the client is obtained first, then the call is made.\<close>

definition mega_call :: "'w env \<Rightarrow> effect \<Rightarrow> ('w \<Rightarrow> (exn + 'a) \<times> 'w) \<Rightarrow> 'w state \<Rightarrow> (exn + 'a) \<times> 'w state" where
  "mega_call env e f s =
     (case get_mega_client env s of
        (Inl ex, s1) \<Rightarrow> (Inl ex, s1)
      | (Inr m, s1) \<Rightarrow> call e f s1)"

definition mega_find_path_descriptor :: "'w env \<Rightarrow> pyval \<Rightarrow> 'w state \<Rightarrow> (exn + pyval) \<times> 'w state" where
  "mega_find_path_descriptor env x s = mega_call env (MegaFindPath x) (\<lambda>w. m_find_path_descriptor env w x) s"

definition mega_create_folder :: "'w env \<Rightarrow> pyval \<Rightarrow> 'w state \<Rightarrow> (exn + pyval) \<times> 'w state" where
  "mega_create_folder env x s = mega_call env (MegaCreateFolder x) (\<lambda>w. m_create_folder env w x) s"

definition mega_find :: "'w env \<Rightarrow> pyval \<Rightarrow> 'w state \<Rightarrow> (exn + pyval) \<times> 'w state" where
  "mega_find env x s = mega_call env (MegaFind x) (\<lambda>w. m_find env w x) s"

definition mega_rename :: "'w env \<Rightarrow> pyval \<Rightarrow> string \<Rightarrow> 'w state \<Rightarrow> (exn + pyval) \<times> 'w state" where
  "mega_rename env x n s = mega_call env (MegaRename x n) (\<lambda>w. m_rename env w x n) s"

section \<open>The handler, block by block\<close>

text \<open>Lines 92 to 103: the event must have a \<open>data\<close> item that is not \<open>None\<close>.\<close>

definition validate_event :: "pyval \<Rightarrow> 'w state \<Rightarrow> int option \<times> 'w state" where
  "validate_event event s =
     (case getitem event ''data'' of
        Inl ex \<Rightarrow>
          (Some 1, report_exception (log ERROR ''Event has no property 'data'. Gotten event: {}'' s))
      | Inr v \<Rightarrow>
          if v = PyNone
          then (Some 1, report ''Cannot find the data object in event. Got: {}''
                          (log ERROR ''Cannot find the data object in event. Got: {}'' s))
          else (None, log INFO ''Event {}'' s))"

text \<open>Lines 105 to 118: the second read of \<open>event['data']\<close>, then base64, UTF-8 and JSON.\<close>

definition decode_payload :: "'w env \<Rightarrow> pyval \<Rightarrow> 'w state \<Rightarrow> (int + pyval) \<times> 'w state" where
  "decode_payload env event s =
     (case getitem event ''data'' of
        Inl ex \<Rightarrow>
          (Inl 1, report_exception (log ERROR ''Failed to decode b64 data to utf-8 due to: {} '' s))
      | Inr data_str \<Rightarrow>
          (case b64_json_loads env data_str of
             Inl ex \<Rightarrow>
               (Inl 1, report_exception
                         (log ERROR ''Unable to load data json string to dict due to: {}'' s))
           | Inr data \<Rightarrow> (Inr data, s)))"

text \<open>Lines 120 to 128. Neither membership test is inside a \<open>try\<close>.\<close>

definition validate_fields :: "pyval \<Rightarrow> 'w state \<Rightarrow> unit outcome \<times> 'w state" where
  "validate_fields data s =
     (case contains ''url'' data of
        Inl ex \<Rightarrow> (Raise ex, s)
      | Inr has_url \<Rightarrow>
          if \<not> has_url
          then (Return 1, report ''No file URL in event payload to upload.''
                            (log ERROR ''No file URL in event payload to upload.'' s))
          else
            (case contains ''folder'' data of
               Inl ex \<Rightarrow> (Raise ex, s)
             | Inr has_folder \<Rightarrow>
                 if \<not> has_folder
                 then (Continue (),
                       log WARNING ''No folder in event payload to upload file too, uploading to root folder.'' s)
                 else (Continue (), s)))"

text \<open>
  Lines 130 to 146, outside any \<open>try\<close>. \<open>tempfile.NamedTemporaryFile('wb')\<close> is called
  with its default \<open>delete=True\<close>: the file exists from its creation, holds what was
  written once it is flushed by \<open>close()\<close>, and \<open>close()\<close> then removes it. The block
  yields the name for the rename and the retained path.
\<close>

definition download_file :: "'w env \<Rightarrow> pyval \<Rightarrow> 'w state \<Rightarrow> (string \<times> string) outcome \<times> 'w state" where
  "download_file env data s =
     (case getitem data ''url'' of
        Inl ex \<Rightarrow> (Raise ex, s)
      | Inr url \<Rightarrow>
          (case urlparse_path env url of
             Inl ex \<Rightarrow> (Raise ex, s)
           | Inr p \<Rightarrow>
               (case call (HttpGet url) (\<lambda>w. requests_get env w url) s of
                  (Inl ex, s1) \<Rightarrow> (Raise ex, s1)
                | (Inr resp, s1) \<Rightarrow>
                    if status_code resp = 200
                    then
                      (case named_temporary_file env (world s1) of
                         (Inl ex, w) \<Rightarrow> (Raise ex, s1\<lparr>world := w\<rparr>)
                       | (Inr path, w) \<Rightarrow>
                           (let s2 = emit (TempFile path) (s1\<lparr>world := w, fs := (fs s1)(path \<mapsto> [])\<rparr>);
                                s3 = s2\<lparr>fs := (fs s2)(path \<mapsto> content resp)\<rparr>;
                                s4 = s3\<lparr>fs := (fs s3)(path := None)\<rparr>
                            in (Continue (basename p, path),
                                log INFO path (log INFO ''Success in downloading file at url {}.'' s4))))
                    else
                      (Return 1, report ''Failed to download file at url {}. Status code: {}.''
                                   (log ERROR ''Failed to download file at url {}. Status code: {}.'' s1)))))"

text \<open>Lines 149 to 160, the body of the \<open>try\<close>; its value is the local \<open>folder\<close>.\<close>

definition resolve_folder_body :: "'w env \<Rightarrow> pyval \<Rightarrow> 'w state \<Rightarrow> (exn + pyval) \<times> 'w state" where
  "resolve_folder_body env data s =
     (case contains ''folder'' data of
        Inl ex \<Rightarrow> (Inl ex, s)
      | Inr has_folder \<Rightarrow>
          if \<not> has_folder then (Inr PyNone, s)
          else
            (case get_mega_client env s of
               (Inl ex, s1) \<Rightarrow> (Inl ex, s1)
             | (Inr m, s1) \<Rightarrow>
                 (case getitem data ''folder'' of
                    Inl ex \<Rightarrow> (Inl ex, s1)
                  | Inr f \<Rightarrow>
                      (case call (MegaFindPath f) (\<lambda>w. m_find_path_descriptor env w f) s1 of
                         (Inl ex, s2) \<Rightarrow> (Inl ex, s2)
                       | (Inr folder_str, s2) \<Rightarrow>
                           if folder_str = PyNone
                           then
                             (case mega_create_folder env f s2 of
                                (Inl ex, s3) \<Rightarrow> (Inl ex, s3)
                              | (Inr c, s3) \<Rightarrow>
                                  (case mega_find env f s3 of
                                     (Inl ex, s4) \<Rightarrow> (Inl ex, s4)
                                   | (Inr folder, s4) \<Rightarrow>
                                       (Inr folder,
                                        log WARNING ''Folder {} not found in Mega account to upload the file to and was created.'' s4)))
                           else mega_find env f (log DEBUG ''Folder name: {}'' s2)))))"

text \<open>
  Lines 148 to 164: the handler of the \<open>try\<close> formats \<open>data['folder']\<close> into its message,
  reports and returns 1.
\<close>

definition resolve_folder :: "'w env \<Rightarrow> pyval \<Rightarrow> 'w state \<Rightarrow> pyval outcome \<times> 'w state" where
  "resolve_folder env data s =
     (case resolve_folder_body env data s of
        (Inr folder, s1) \<Rightarrow> (Continue folder, s1)
      | (Inl ex, s1) \<Rightarrow>
          (case getitem data ''folder'' of
             Inl ex' \<Rightarrow> (Raise ex', s1)
           | Inr f \<Rightarrow> (Return 1, report_exception (log ERROR ''Failed to find or create folder '{}' due to: {}'' s1))))"

text \<open>Lines 168 to 171, the body of the \<open>try\<close>.\<close>

definition upload_body :: "'w env \<Rightarrow> string \<Rightarrow> pyval \<Rightarrow> 'w state \<Rightarrow> (exn + pyval) \<times> 'w state" where
  "upload_body env path folder s =
     (if truthy folder
      then
        (case get_mega_client env s of
           (Inl ex, s1) \<Rightarrow> (Inl ex, s1)
         | (Inr m, s1) \<Rightarrow>
             (case index0 folder of
                Inl ex \<Rightarrow> (Inl ex, s1)
              | Inr dest \<Rightarrow>
                  call (MegaUpload path (Some dest))
                    (\<lambda>w. m_upload env w path (fs s1 path) (Some dest)) s1))
      else
        (case get_mega_client env s of
           (Inl ex, s1) \<Rightarrow> (Inl ex, s1)
         | (Inr m, s1) \<Rightarrow>
             call (MegaUpload path None) (\<lambda>w. m_upload env w path (fs s1 path) None) s1))"

text \<open>Lines 166 to 175.\<close>

definition upload_step :: "'w env \<Rightarrow> string \<Rightarrow> pyval \<Rightarrow> 'w state \<Rightarrow> int option \<times> 'w state" where
  "upload_step env path folder s =
     (case upload_body env path folder s of
        (Inr r, s1) \<Rightarrow> (None, s1)
      | (Inl ex, s1) \<Rightarrow>
          (Some 1, report_exception (log ERROR ''Failed to upload file named '{}' to Mega account.'' s1)))"

text \<open>Lines 177 to 181, outside any \<open>try\<close>.\<close>

definition rename_step :: "'w env \<Rightarrow> string \<Rightarrow> string \<Rightarrow> 'w state \<Rightarrow> (exn + int) \<times> 'w state" where
  "rename_step env path name s =
     (case mega_find env (PyStr (basename path)) s of
        (Inl ex, s1) \<Rightarrow> (Inl ex, s1)
      | (Inr file_on_mega, s1) \<Rightarrow>
          (case mega_rename env file_on_mega name s1 of
             (Inl ex, s2) \<Rightarrow> (Inl ex, s2)
           | (Inr r, s2) \<Rightarrow> (Inr 0, log INFO ''Finished uploading file to Mega account.'' s2)))"

text \<open>Lines 92 to 146: everything before the remote-storage account is touched.\<close>

definition fetch_stage :: "'w env \<Rightarrow> pyval \<Rightarrow> 'w state \<Rightarrow> (pyval \<times> string \<times> string) outcome \<times> 'w state" where
  "fetch_stage env event s =
     (case validate_event event s of
        (Some r, s1) \<Rightarrow> (Return r, s1)
      | (None, s1) \<Rightarrow>
          (case decode_payload env event s1 of
             (Inl r, s2) \<Rightarrow> (Return r, s2)
           | (Inr data, s2) \<Rightarrow>
               (case validate_fields data s2 of
                  (Raise ex, s3) \<Rightarrow> (Raise ex, s3)
                | (Return r, s3) \<Rightarrow> (Return r, s3)
                | (Continue u, s3) \<Rightarrow>
                    (case download_file env data s3 of
                       (Raise ex, s4) \<Rightarrow> (Raise ex, s4)
                     | (Return r, s4) \<Rightarrow> (Return r, s4)
                     | (Continue (name, path), s4) \<Rightarrow> (Continue (data, name, path), s4)))))"

text \<open>Lines 148 to 181: folder, upload, rename.\<close>

definition store_stage :: "'w env \<Rightarrow> pyval \<Rightarrow> string \<Rightarrow> string \<Rightarrow> 'w state \<Rightarrow> (exn + int) \<times> 'w state" where
  "store_stage env data name path s =
     (case resolve_folder env data s of
        (Raise ex, s1) \<Rightarrow> (Inl ex, s1)
      | (Return r, s1) \<Rightarrow> (Inr r, s1)
      | (Continue folder, s1) \<Rightarrow>
          (case upload_step env path folder s1 of
             (Some r, s2) \<Rightarrow> (Inr r, s2)
           | (None, s2) \<Rightarrow> rename_step env path name s2))"

text \<open>
  \<open>upload_file_by_url_to_mega(event, context)\<close>: \<open>Inl\<close> is an exception raised to the
  caller, \<open>Inr\<close> the returned integer. The context is not used.
\<close>

definition upload_file_by_url_to_mega :: "'w env \<Rightarrow> pyval \<Rightarrow> pyval \<Rightarrow> 'w state \<Rightarrow> (exn + int) \<times> 'w state" where
  "upload_file_by_url_to_mega env event context s =
     (case fetch_stage env event s of
        (Raise ex, s1) \<Rightarrow> (Inl ex, s1)
      | (Return r, s1) \<Rightarrow> (Inr r, s1)
      | (Continue (data, name, path), s1) \<Rightarrow> store_stage env data name path s1)"

section \<open>The folder resolution policy, as the specification words it\<close>


section \<open>A simulated account\<close>

text \<open>
  A concrete outside world on which the handler can be run: the world is the list of
  names the remote account holds. One URL answers 200 with a four-byte body, every other
  request fails in transport; the credential blob exists and the login is accepted.
\<close>

definition env_sim :: "string list env" where
  "env_sim = \<lparr>
     getenv = (\<lambda>k. if k = ''VARS_BUCKET'' then Some ''bucket''
                    else if k = ''VARS_BLOB'' then Some ''vars.json'' else None),
     b64_json_loads = (\<lambda>x.
        if x = PyBytes ''eyJ1cmwiOiAiaHR0cHM6Ly9leGFtcGxlLmNvbS9waWMuanBnIiwgImZvbGRlciI6ICJhbGJ1bXMifQ==''
        then Inr (PyDict [(''url'', PyStr ''https://example.com/pic.jpg''), (''folder'', PyStr ''albums'')])
        else if x = PyBytes ''eyJ1cmwiOiAiaHR0cHM6Ly9leGFtcGxlLmNvbS9waWMuanBnIn0=''
        then Inr (PyDict [(''url'', PyStr ''https://example.com/pic.jpg'')])
        else if x = PyBytes ''eyJmb2xkZXIiOiAiYWxidW1zIn0=''
        then Inr (PyDict [(''folder'', PyStr ''albums'')])
        else if x = PyBytes ''NDI='' then Inr (PyInt 42)
        else Inl (Error ''ValueError'')),
     json_loads = (\<lambda>str. if str = ''credentials''
        then Inr (PyDict [(''USERNAME'', PyStr ''user''), (''PASSWORD'', PyStr ''secret'')])
        else Inl (Error ''JSONDecodeError'')),
     urlparse_path = (\<lambda>u. if u = PyStr ''https://example.com/pic.jpg'' then Inr ''/pic.jpg''
        else Inl (Error ''AttributeError'')),
     requests_get = (\<lambda>w u. if u = PyStr ''https://example.com/pic.jpg''
        then (Inr \<lparr>status_code = 200, content = ''JPEG''\<rparr>, w)
        else (Inl (Error ''ConnectionError''), w)),
     named_temporary_file = (\<lambda>w. (Inr ''/tmp/tmpa1b2c3'', w)),
     storage_get_blob = (\<lambda>w b n. (Inr (Some ''vars.json''), w)),
     blob_download_as_string = (\<lambda>w b. (Inr ''credentials'', w)),
     m_login = (\<lambda>w u p. (Inr (), w)),
     m_find_path_descriptor = (\<lambda>w x.
        (Inr (case x of PyStr f \<Rightarrow> if f \<in> set w then PyStr f else PyNone | _ \<Rightarrow> PyNone), w)),
     m_create_folder = (\<lambda>w x. (Inr PyNone, case x of PyStr f \<Rightarrow> f # w | _ \<Rightarrow> w)),
     m_find = (\<lambda>w x.
        (Inr (case x of PyStr f \<Rightarrow> if f \<in> set w then PyTuple [PyStr f, PyDict []] else PyNone
              | _ \<Rightarrow> PyNone), w)),
     m_upload = (\<lambda>w path c dest. (Inr PyNone, basename path # w)),
     m_rename = (\<lambda>w e n. (Inr PyNone, w))
   \<rparr>"

text \<open>The same world with the network down, the login refused, or the credential blob missing.\<close>

definition env_unreachable :: "string list env" where
  "env_unreachable = env_sim\<lparr>requests_get := (\<lambda>w u. (Inl (Error ''ConnectionError''), w))\<rparr>"

definition env_login_refused :: "string list env" where
  "env_login_refused = env_sim\<lparr>m_login := (\<lambda>w u p. (Inl (Error ''RequestError''), w))\<rparr>"

definition env_no_blob :: "string list env" where
  "env_no_blob = env_sim\<lparr>storage_get_blob := (\<lambda>w b n. (Inr None, w))\<rparr>"

text \<open>
  The same world where the name-based lookup of the folder finds nothing, even after the
  folder was created, and where the uploader opens the local file, as \<open>Mega.upload\<close>
  does with \<open>open(filename, 'rb')\<close>: a path that holds no file raises.
\<close>

definition env_folder_not_found :: "string list env" where
  "env_folder_not_found = env_sim\<lparr>
     m_find := (\<lambda>w x.
       (Inr (if x = PyStr ''albums'' then PyNone else PyTuple [x, PyDict []]), w)),
     m_upload := (\<lambda>w path file dest.
       case file of
         None \<Rightarrow> (Inl (Error ''FileNotFoundError''), w)
       | Some b \<Rightarrow> (Inr PyNone, basename path # w))\<rparr>"

text \<open>A fresh process with an empty account, and the same process with the folder present.\<close>

definition s_init :: "string list state" where
  "s_init = \<lparr>ERROR_REPORTING_CLIENT = None, MEGA_CLIENT = None, fs = (\<lambda>p. None),
              world = [], trace = []\<rparr>"

definition s_albums :: "string list state" where
  "s_albums = s_init\<lparr>world := [''albums'']\<rparr>"

text \<open>The event of the docstring, for \<open>{"url": "https://example.com/pic.jpg", "folder": "albums"}\<close>.\<close>

definition ev_albums :: pyval where
  "ev_albums = PyDict [(''data'',
     PyBytes ''eyJ1cmwiOiAiaHR0cHM6Ly9leGFtcGxlLmNvbS9waWMuanBnIiwgImZvbGRlciI6ICJhbGJ1bXMifQ=='')]"

definition payload_albums :: pyval where
  "payload_albums = PyDict [(''url'', PyStr ''https://example.com/pic.jpg''), (''folder'', PyStr ''albums'')]"

text \<open>An event whose payload is \<open>{"folder": "albums"}\<close>.\<close>

definition ev_no_url :: pyval where
  "ev_no_url = PyDict [(''data'', PyBytes ''eyJmb2xkZXIiOiAiYWxidW1zIn0='')]"

text \<open>An event whose payload is the JSON number \<open>42\<close>.\<close>

definition ev_number :: pyval where
  "ev_number = PyDict [(''data'', PyBytes ''NDI='')]"

section \<open>Unfolding rules\<close>

lemmas prims = emit_def log_def report_def report_exception_def get_error_reporting_client_def call_def

lemmas handler_defs = upload_file_by_url_to_mega_def fetch_stage_def store_stage_def validate_event_def
  decode_payload_def validate_fields_def download_file_def resolve_folder_def resolve_folder_body_def
  upload_step_def upload_body_def rename_step_def mega_find_def mega_rename_def mega_create_folder_def
  mega_find_path_descriptor_def mega_call_def get_mega_client_def get_vars_dict_def login_body_def
  basename_def

lemmas sim_defs = env_sim_def env_unreachable_def env_login_refused_def env_no_blob_def
  env_folder_not_found_def s_init_def s_albums_def ev_albums_def payload_albums_def ev_no_url_def ev_number_def

section \<open>Facts about the blocks\<close>


lemma download_file_path_absent:
  assumes "download_file env data s = (Continue (name, path), s')"
  shows "fs s' path = None"
  using assms
  by (auto simp: download_file_def prims Let_def split: sum.splits prod.splits if_splits)

lemma fetch_stage_ContinueD:
  assumes "fetch_stage env event s = (Continue (data, name, path), s1)"
  shows "\<exists>d url p. data = PyDict d \<and> map_of d ''url'' = Some url \<and> urlparse_path env url = Inr p
           \<and> name = basename p \<and> fs s1 path = None"
proof -
  from assms obtain s0 where dl: "download_file env data s0 = (Continue (name, path), s1)"
    by (auto simp: fetch_stage_def split: prod.splits option.splits sum.splits outcome.splits)
  have "fs s1 path = None" using dl by (rule download_file_path_absent)
  moreover from dl obtain url p where "getitem data ''url'' = Inr url" "urlparse_path env url = Inr p" "name = basename p"
    by (auto simp: download_file_def prims Let_def split: sum.splits prod.splits if_splits)
  moreover then obtain d where "data = PyDict d" "map_of d ''url'' = Some url"
    by (cases data) (auto split: option.splits)
  ultimately show ?thesis by blast
qed

lemma get_vars_dict_slot:
  "get_vars_dict env s = (r, s') \<Longrightarrow> MEGA_CLIENT s' = MEGA_CLIENT s"
  by (auto simp: get_vars_dict_def prims split: prod.splits sum.splits option.splits)

lemma get_vars_dict_slot_indep:
  "fst (get_vars_dict env (s\<lparr>MEGA_CLIENT := x\<rparr>)) = fst (get_vars_dict env s)"
  by (auto simp: get_vars_dict_def prims split: prod.splits sum.splits option.splits)

lemma get_vars_dict_slot_indep_reports:
  "filter is_report (trace (snd (get_vars_dict env (s\<lparr>MEGA_CLIENT := x\<rparr>)))) = filter is_report (trace s)"
  by (auto simp: get_vars_dict_def prims split: prod.splits sum.splits option.splits)

lemma login_body_slot:
  "login_body env vars s = (r, s') \<Longrightarrow> MEGA_CLIENT s' = MEGA_CLIENT s"
  by (auto simp: login_body_def prims split: prod.splits sum.splits option.splits)

lemma get_mega_client_slot:
  "get_mega_client env s = (r, s') \<Longrightarrow> MEGA_CLIENT s' \<noteq> None"
  by (auto simp: get_mega_client_def prims split: prod.splits sum.splits option.splits
      dest!: get_vars_dict_slot login_body_slot)

lemma get_mega_client_load_fails:
  assumes "MEGA_CLIENT s = None" and "fst (get_vars_dict env s) = Inl ex"
  shows "\<exists>s'. get_mega_client env s = (Inl ex, s') \<and>
              filter is_report (trace s') = filter is_report (trace s)"
proof -
  obtain r s1 where g: "get_vars_dict env (s\<lparr>MEGA_CLIENT := Some Mega\<rparr>) = (r, s1)"
    by (cases "get_vars_dict env (s\<lparr>MEGA_CLIENT := Some Mega\<rparr>)")
  have "r = Inl ex"
    using get_vars_dict_slot_indep [where env = env and s = s and x = "Some Mega"] g assms(2) by simp
  moreover have "filter is_report (trace s1) = filter is_report (trace s)"
    using get_vars_dict_slot_indep_reports [where env = env and s = s and x = "Some Mega"] g by simp
  ultimately show ?thesis
    using assms(1) g by (simp add: get_mega_client_def prims)
qed

lemma get_mega_client_set:
  "MEGA_CLIENT s \<noteq> None \<Longrightarrow> get_mega_client env s = (Inr Mega, s)"
  by (cases "MEGA_CLIENT s") (auto simp: get_mega_client_def intro: mega.exhaust)

lemma mega_call_set:
  "MEGA_CLIENT s \<noteq> None \<Longrightarrow> mega_call env e f s = call e f s"
  by (simp add: mega_call_def get_mega_client_set)

lemma call_slot:
  "call e f s = (r, s') \<Longrightarrow> MEGA_CLIENT s' = MEGA_CLIENT s"
  by (auto simp: prims split: prod.splits)

lemma mega_call_slot:
  "mega_call env e f s = (r, s') \<Longrightarrow> MEGA_CLIENT s' \<noteq> None"
proof (cases "get_mega_client env s")
  case (Pair r0 s0)
  then have s0: "MEGA_CLIENT s0 \<noteq> None" by (rule get_mega_client_slot)
  show "mega_call env e f s = (r, s') \<Longrightarrow> MEGA_CLIENT s' \<noteq> None"
    using Pair s0 by (cases r0) (auto simp: mega_call_def dest: call_slot)
qed

lemma getitem_folder_contains:
  "getitem data ''folder'' = Inr f \<Longrightarrow> contains ''folder'' data = Inr True"
  by (cases data) (auto split: option.splits)

lemma fetch_stage_temp_file:
  assumes "fetch_stage env event s = (Continue (data, name, path), s1)"
  shows "TempFile path \<in> set (trace s1)"
proof -
  from assms obtain s0 where dl: "download_file env data s0 = (Continue (name, path), s1)"
    by (auto simp: fetch_stage_def split: prod.splits option.splits sum.splits outcome.splits)
  then show ?thesis
    by (auto simp: download_file_def prims Let_def split: sum.splits prod.splits if_splits)
qed

lemma get_mega_client_ok_quiet:
  assumes "get_mega_client env s = (Inr m, s')"
  shows "filter is_report (trace s') = filter is_report (trace s) \<and>
         filter is_error_log (trace s') = filter is_error_log (trace s)"
  using assms
  by (auto simp: get_mega_client_def get_vars_dict_def login_body_def prims
      split: prod.splits sum.splits option.splits)

lemma resolve_folder_body_eq:
  assumes "getitem data ''folder'' = Inr f" and "get_mega_client env s1 = (Inr m, s2)"
  shows "resolve_folder_body env data s1 =
     (case call (MegaFindPath f) (\<lambda>w. m_find_path_descriptor env w f) s2 of
        (Inl ex, s3) \<Rightarrow> (Inl ex, s3)
      | (Inr folder_str, s3) \<Rightarrow>
          if folder_str = PyNone
          then
            (case call (MegaCreateFolder f) (\<lambda>w. m_create_folder env w f) s3 of
               (Inl ex, s4) \<Rightarrow> (Inl ex, s4)
             | (Inr c, s4) \<Rightarrow>
                 (case call (MegaFind f) (\<lambda>w. m_find env w f) s4 of
                    (Inl ex, s5) \<Rightarrow> (Inl ex, s5)
                  | (Inr folder, s5) \<Rightarrow>
                      (Inr folder,
                       log WARNING ''Folder {} not found in Mega account to upload the file to and was created.'' s5)))
          else call (MegaFind f) (\<lambda>w. m_find env w f) (log DEBUG ''Folder name: {}'' s3))"
proof -
  have set: "MEGA_CLIENT s2 \<noteq> None"
    using assms(2) by (rule get_mega_client_slot)
  show ?thesis
    using assms set getitem_folder_contains [OF assms(1)]
    by (auto simp: resolve_folder_body_def mega_create_folder_def mega_find_def mega_call_set prims
        split: prod.splits sum.splits)
qed

lemma resolve_folder_body_slot:
  assumes "getitem data ''folder'' = Inr f" and "resolve_folder_body env data s1 = (r, s3)"
  shows "MEGA_CLIENT s3 \<noteq> None"
proof (cases "get_mega_client env s1")
  case (Pair r0 s2)
  then have set: "MEGA_CLIENT s2 \<noteq> None" by (rule get_mega_client_slot)
  show ?thesis
  proof (cases r0)
    case (Inl ex)
    then show ?thesis
      using Pair set assms getitem_folder_contains [OF assms(1)]
      by (simp add: resolve_folder_body_def)
  next
    case (Inr m)
    then show ?thesis
      using assms(2) set resolve_folder_body_eq [OF assms(1), of env s1 m s2] Pair
      by (auto simp: prims split: prod.splits sum.splits if_splits)
  qed
qed

lemma upload_body_slot:
  assumes "upload_body env path folder s = (r, s')"
  shows "MEGA_CLIENT s' \<noteq> None"
proof (cases "get_mega_client env s")
  case (Pair r0 s0)
  then have set: "MEGA_CLIENT s0 \<noteq> None" by (rule get_mega_client_slot)
  show ?thesis
    using assms Pair set
    by (cases r0) (auto simp: upload_body_def split: if_splits sum.splits dest: call_slot)
qed

lemma rename_step_set:
  assumes "MEGA_CLIENT s \<noteq> None"
  shows "rename_step env path name s =
     (case call (MegaFind (PyStr (basename path))) (\<lambda>w. m_find env w (PyStr (basename path))) s of
        (Inl ex, s1) \<Rightarrow> (Inl ex, s1)
      | (Inr file_on_mega, s1) \<Rightarrow>
          (case call (MegaRename file_on_mega name) (\<lambda>w. m_rename env w file_on_mega name) s1 of
             (Inl ex, s2) \<Rightarrow> (Inl ex, s2)
           | (Inr r, s2) \<Rightarrow> (Inr 0, log INFO ''Finished uploading file to Mega account.'' s2)))"
  using assms
  by (auto simp: rename_step_def mega_find_def mega_rename_def mega_call_set prims
      split: prod.splits sum.splits)

section \<open>Event validation\<close>

text \<open>
  C7. For every event that lacks a \<open>data\<close> item (the subscript raises) or whose \<open>data\<close>
  is \<open>None\<close>, the handler returns 1, and what it emits is one error log record followed
  by exactly one report to the error-tracking service.
\<close>

theorem missing_or_null_data_returns_1_with_one_report:
  assumes "getitem event ''data'' = Inl ex \<or> getitem event ''data'' = Inr PyNone"
  shows "fst (upload_file_by_url_to_mega env event context s) = Inr 1 \<and>
         (\<exists>msg r. is_report r \<and>
            trace (snd (upload_file_by_url_to_mega env event context s)) = trace s @ [Log ERROR msg, r])"
  using assms
  by (auto simp: upload_file_by_url_to_mega_def fetch_stage_def validate_event_def prims)

theorem missing_or_null_data_witness:
  "getitem (PyDict []) ''data'' = Inl KeyError \<and>
   fst (upload_file_by_url_to_mega env_sim (PyDict []) PyNone s_init) = Inr 1 \<and>
   (\<exists>msg r. is_report r \<and>
      trace (snd (upload_file_by_url_to_mega env_sim (PyDict []) PyNone s_init))
        = trace s_init @ [Log ERROR msg, r])"
  using missing_or_null_data_returns_1_with_one_report
          [of "PyDict []" KeyError env_sim PyNone s_init]
  by simp

text \<open>
  C9. When the validation block lets control through, the event has a \<open>data\<close> item that
  is not \<open>None\<close>, so the second read of \<open>event['data']\<close> yields that item and the block
  that follows goes straight to decoding it: the handler of the second \<open>try\<close> is never
  entered.
\<close>

theorem second_data_extraction_cannot_raise:
  assumes "validate_event event s = (None, s1)"
  shows "\<exists>v. getitem event ''data'' = Inr v \<and> v \<noteq> PyNone \<and>
           decode_payload env event s1 =
             (case b64_json_loads env v of
                Inl ex \<Rightarrow> (Inl 1, report_exception
                                   (log ERROR ''Unable to load data json string to dict due to: {}'' s1))
              | Inr data \<Rightarrow> (Inr data, s1))"
  using assms
  by (auto simp: validate_event_def decode_payload_def split: sum.splits if_splits)

theorem second_data_extraction_witness:
  "validate_event ev_albums s_init = (None, log INFO ''Event {}'' s_init) \<and>
   (\<exists>v. getitem ev_albums ''data'' = Inr v \<and> v \<noteq> PyNone \<and>
      decode_payload env_sim ev_albums (log INFO ''Event {}'' s_init) =
        (case b64_json_loads env_sim v of
           Inl ex \<Rightarrow> (Inl 1, report_exception
                              (log ERROR ''Unable to load data json string to dict due to: {}''
                                 (log INFO ''Event {}'' s_init)))
         | Inr data \<Rightarrow> (Inr data, log INFO ''Event {}'' s_init)))"
proof -
  have v: "validate_event ev_albums s_init = (None, log INFO ''Event {}'' s_init)"
    by (simp add: validate_event_def ev_albums_def)
  show ?thesis
    using v second_data_extraction_cannot_raise [OF v, of env_sim] by simp
qed

section \<open>Field validation\<close>

text \<open>
  C8 asks that every decoded payload lacking a \<open>url\<close> field makes the handler return 1
  before any HTTP GET. The payload \<open>42\<close> (data \<open>NDI=\<close>) lacks one: the membership
  test of line 121, outside any \<open>try\<close>, raises \<open>TypeError\<close> on it, and the handler
  raises to its caller instead of returning 1. No GET was issued.
\<close>

theorem number_payload_raises_instead_of_returning_1:
  "getitem ev_number ''data'' = Inr (PyBytes ''NDI='') \<and>
   b64_json_loads env_sim (PyBytes ''NDI='') = Inr (PyInt 42) \<and>
   contains ''url'' (PyInt 42) = Inl TypeError \<and>
   fst (upload_file_by_url_to_mega env_sim ev_number PyNone s_init) = Inl TypeError \<and>
   filter is_http_get (trace (snd (upload_file_by_url_to_mega env_sim ev_number PyNone s_init))) = []"
  by (simp add: handler_defs prims sim_defs)

text \<open>
  What holds for any payload: when the membership test yields \<open>False\<close> (an object
  without the key, a list without the element, a string without the substring), the
  handler returns 1 with no HTTP GET and the outside world as it was; when the test
  raises, that exception reaches the caller, again with no HTTP GET.
\<close>

lemma payload_without_url_returns_1_without_get:
  assumes "getitem event ''data'' = Inr data_str" and "data_str \<noteq> PyNone"
    and "b64_json_loads env data_str = Inr data" and "contains ''url'' data = Inr False"
  shows "fst (upload_file_by_url_to_mega env event context s) = Inr 1 \<and>
         filter is_http_get (trace (snd (upload_file_by_url_to_mega env event context s)))
           = filter is_http_get (trace s) \<and>
         world (snd (upload_file_by_url_to_mega env event context s)) = world s"
  using assms
  by (simp add: upload_file_by_url_to_mega_def fetch_stage_def validate_event_def decode_payload_def
        validate_fields_def prims)

lemma payload_not_container_raises_without_get:
  assumes "getitem event ''data'' = Inr data_str" and "data_str \<noteq> PyNone"
    and "b64_json_loads env data_str = Inr data" and "contains ''url'' data = Inl ex"
  shows "fst (upload_file_by_url_to_mega env event context s) = Inl ex \<and>
         filter is_http_get (trace (snd (upload_file_by_url_to_mega env event context s)))
           = filter is_http_get (trace s) \<and>
         world (snd (upload_file_by_url_to_mega env event context s)) = world s"
  using assms
  by (simp add: upload_file_by_url_to_mega_def fetch_stage_def validate_event_def decode_payload_def
        validate_fields_def prims)

section \<open>The downloaded file\<close>

text \<open>
  C1 asks that, after a GET answering 200 with body B, the retained path holds B for the
  rest of the invocation. On the simulated account the GET answers 200 with body
  \<open>JPEG\<close>; the download block retains \<open>/tmp/tmpa1b2c3\<close>, and the file system holds
  nothing at that path, neither after the block nor at the end of the invocation:
  \<open>fh.close()\<close> on line 138 removed the file that line 136 wrote.
\<close>

theorem temporary_file_is_removed_on_close:
  "fst (requests_get env_sim (world s_init) (PyStr ''https://example.com/pic.jpg''))
     = Inr \<lparr>status_code = 200, content = ''JPEG''\<rparr> \<and>
   fst (download_file env_sim payload_albums s_init) = Continue (''pic.jpg'', ''/tmp/tmpa1b2c3'') \<and>
   fs (snd (download_file env_sim payload_albums s_init)) ''/tmp/tmpa1b2c3'' = None \<and>
   fs (snd (upload_file_by_url_to_mega env_sim ev_albums PyNone s_init)) ''/tmp/tmpa1b2c3'' = None"
  by (simp add: handler_defs prims sim_defs)

section \<open>What reaches the caller\<close>

text \<open>
  C2 asks that the handler returns 0 or 1 for every event and never raises on a download
  or payload failure. With the network down, the exception of \<open>requests.get\<close> on line
  132 leaves the handler; with the payload \<open>42\<close> (base64 \<open>NDI=\<close>), so does the
  \<open>TypeError\<close> of the membership test on line 121.
\<close>

theorem transport_error_is_raised_to_the_caller:
  "fst (upload_file_by_url_to_mega env_unreachable ev_albums PyNone s_init)
     = Inl (Error ''ConnectionError'') \<and>
   fst (upload_file_by_url_to_mega env_sim (PyDict [(''data'', PyBytes ''NDI='')]) PyNone s_init)
     = Inl TypeError"
  by (simp add: handler_defs prims sim_defs)

text \<open>What does hold for every event: when the handler returns, it returns 0 or 1.\<close>

lemma fetch_stage_returns_1:
  "fetch_stage env event s = (Return r, s') \<Longrightarrow> r = 1"
  by (auto simp: fetch_stage_def validate_event_def decode_payload_def validate_fields_def
        download_file_def Let_def
      split: prod.splits sum.splits option.splits outcome.splits if_splits)

lemma store_stage_returns_0_or_1:
  "store_stage env data name path s = (Inr r, s') \<Longrightarrow> r = 0 \<or> r = 1"
  by (auto simp: store_stage_def resolve_folder_def upload_step_def rename_step_def
      split: prod.splits sum.splits option.splits outcome.splits if_splits)

lemma handler_returns_0_or_1:
  "upload_file_by_url_to_mega env event context s = (Inr r, s') \<Longrightarrow> r = 0 \<or> r = 1"
  by (auto simp: upload_file_by_url_to_mega_def
      split: prod.splits outcome.splits
      dest: fetch_stage_returns_1 store_stage_returns_0_or_1)

section \<open>The memoized client\<close>

text \<open>
  C3 asks that a failed login leaves the memoization slot unset and that the next
  invocation loads the credentials and logs in afresh. With the login refused, the call
  of \<open>_get_mega_client\<close> raises and leaves \<open>_MEGA_CLIENT\<close> set (line 35 ran before the
  login); the next call returns that client as it is, and a second invocation makes no
  credential read and no login.
\<close>

theorem failed_login_leaves_client_cached:
  "fst (get_mega_client env_login_refused s_init) = Inl (Error ''RequestError'') \<and>
   MEGA_CLIENT (snd (get_mega_client env_login_refused s_init)) = Some Mega \<and>
   get_mega_client env_login_refused (snd (get_mega_client env_login_refused s_init))
     = (Inr Mega, snd (get_mega_client env_login_refused s_init)) \<and>
   fst (upload_file_by_url_to_mega env_login_refused ev_albums PyNone s_init) = Inr 1 \<and>
   filter is_credential_attempt
     (trace (snd (upload_file_by_url_to_mega env_login_refused ev_albums PyNone
                    (snd (upload_file_by_url_to_mega env_login_refused ev_albums PyNone s_init)))))
   = filter is_credential_attempt
       (trace (snd (upload_file_by_url_to_mega env_login_refused ev_albums PyNone s_init)))"
  by (simp add: handler_defs prims sim_defs)

text \<open>
  C4 as stated (a failing credential load is raised out of the handler to its caller and
  is not turned into the result 1) fails: with the credential blob missing, the loader
  raises and the handler returns 1.
\<close>

theorem credential_failure_returns_1_counterexample:
  "fst (get_vars_dict env_no_blob s_init) = Inl (Error ''Failed to get info from blob'') \<and>
   fst (upload_file_by_url_to_mega env_no_blob ev_albums PyNone s_init) = Inr 1"
  by (simp add: handler_defs prims sim_defs)

text \<open>
  C4, amended. When an invocation reaches its first use of the client with the slot
  unset and the credential load fails, the failure is raised out of \<open>_get_mega_client\<close>;
  the handler of the enclosing \<open>try\<close> (folder resolution, or upload when the payload has
  no folder) catches it, makes exactly one exception report, and the handler returns 1.
\<close>

theorem credential_failure_is_caught_by_the_handler:
  assumes "fetch_stage env event s = (Continue (data, name, path), s1)"
    and "MEGA_CLIENT s1 = None"
    and "fst (get_vars_dict env s1) = Inl ex"
  shows "fst (get_mega_client env s1) = Inl ex \<and>
         fst (upload_file_by_url_to_mega env event context s) = Inr 1 \<and>
         filter is_report (trace (snd (upload_file_by_url_to_mega env event context s)))
           = filter is_report (trace s1) @ [ReportException]"
proof -
  obtain d url where d: "data = PyDict d" "map_of d ''url'' = Some url"
    using fetch_stage_ContinueD [OF assms(1)] by blast
  obtain s2 where g: "get_mega_client env s1 = (Inl ex, s2)"
    and r: "filter is_report (trace s2) = filter is_report (trace s1)"
    using get_mega_client_load_fails [OF assms(2,3)] by blast
  have "fst (store_stage env data name path s1) = Inr 1 \<and>
        filter is_report (trace (snd (store_stage env data name path s1)))
          = filter is_report (trace s1) @ [ReportException]"
    using d g r
    by (cases "map_of d ''folder''")
       (simp_all add: store_stage_def resolve_folder_def resolve_folder_body_def upload_step_def
          upload_body_def prims)
  then show ?thesis
    using assms(1) g by (simp add: upload_file_by_url_to_mega_def)
qed

theorem credential_failure_is_caught_witness:
  "fst (fetch_stage env_no_blob ev_albums s_init)
     = Continue (payload_albums, ''pic.jpg'', ''/tmp/tmpa1b2c3'') \<and>
   MEGA_CLIENT (snd (fetch_stage env_no_blob ev_albums s_init)) = None \<and>
   fst (get_vars_dict env_no_blob (snd (fetch_stage env_no_blob ev_albums s_init)))
     = Inl (Error ''Failed to get info from blob'') \<and>
   fst (get_mega_client env_no_blob (snd (fetch_stage env_no_blob ev_albums s_init)))
     = Inl (Error ''Failed to get info from blob'') \<and>
   fst (upload_file_by_url_to_mega env_no_blob ev_albums PyNone s_init) = Inr 1 \<and>
   filter is_report (trace (snd (upload_file_by_url_to_mega env_no_blob ev_albums PyNone s_init)))
     = filter is_report (trace (snd (fetch_stage env_no_blob ev_albums s_init))) @ [ReportException]"
proof -
  have a: "fst (fetch_stage env_no_blob ev_albums s_init)
             = Continue (payload_albums, ''pic.jpg'', ''/tmp/tmpa1b2c3'')"
    by (simp add: handler_defs prims sim_defs)
  then have a': "fetch_stage env_no_blob ev_albums s_init
             = (Continue (payload_albums, ''pic.jpg'', ''/tmp/tmpa1b2c3''),
                snd (fetch_stage env_no_blob ev_albums s_init))"
    by (simp add: prod_eq_iff)
  have b: "MEGA_CLIENT (snd (fetch_stage env_no_blob ev_albums s_init)) = None"
    by (simp add: handler_defs prims sim_defs)
  have c: "fst (get_vars_dict env_no_blob (snd (fetch_stage env_no_blob ev_albums s_init)))
             = Inl (Error ''Failed to get info from blob'')"
    by (simp add: get_vars_dict_def prims env_no_blob_def env_sim_def split: prod.splits)
  show ?thesis
    using a b c credential_failure_is_caught_by_the_handler [OF a' b c, of PyNone]
    by simp
qed

section \<open>Folder resolution\<close>



section \<open>Rename\<close>

text \<open>
  C6. For an invocation that reaches the rename step, where the name-based lookup of the
  basename of the temporary file's path yields an entry: the path is the one of the
  temporary file created by the download, and the remote calls of the step are that
  lookup followed by a rename of the entry it yielded to the basename of the path
  component of the payload's url.
\<close>

theorem rename_uses_temporary_basename_and_url_basename:
  assumes reach: "fetch_stage env event s = (Continue (data, name, path), s1)"
    and res: "resolve_folder env data s1 = (Continue folder, s2)"
    and upl: "upload_step env path folder s2 = (None, s3)"
    and fnd: "mega_find env (PyStr (basename path)) s3 = (Inr file_on_mega, s4)"
  shows "TempFile path \<in> set (trace s1) \<and>
         (\<exists>url p. getitem data ''url'' = Inr url \<and> urlparse_path env url = Inr p \<and>
            filter is_mega_call (trace (snd (upload_file_by_url_to_mega env event context s)))
              = filter is_mega_call (trace s3)
                  @ [MegaFind (PyStr (basename path)), MegaRename file_on_mega (basename p)])"
proof -
  obtain d url p where d: "data = PyDict d" "map_of d ''url'' = Some url"
      "urlparse_path env url = Inr p" "name = basename p"
    using fetch_stage_ContinueD [OF reach] by blast
  have set3: "MEGA_CLIENT s3 \<noteq> None"
    using upl by (auto simp: upload_step_def split: prod.splits sum.splits dest: upload_body_slot)
  have fnd': "call (MegaFind (PyStr (basename path)))
                (\<lambda>w. m_find env w (PyStr (basename path))) s3 = (Inr file_on_mega, s4)"
    using fnd set3 by (simp add: mega_find_def mega_call_set)
  have tr4: "trace s4 = trace s3 @ [MegaFind (PyStr (basename path))]"
    using fnd' by (auto simp: prims split: prod.splits)
  have "filter is_mega_call (trace (snd (rename_step env path name s3)))
          = filter is_mega_call (trace s3)
              @ [MegaFind (PyStr (basename path)), MegaRename file_on_mega name]"
    unfolding rename_step_set [OF set3] fnd'
    using tr4 by (auto simp: prims split: prod.splits sum.splits)
  moreover have "upload_file_by_url_to_mega env event context s = rename_step env path name s3"
    using reach res upl by (simp add: upload_file_by_url_to_mega_def store_stage_def)
  ultimately show ?thesis
    using d fetch_stage_temp_file [OF reach] by auto
qed

theorem rename_uses_basenames_witness:
  "let s1 = snd (fetch_stage env_sim ev_albums s_albums);
       folder = PyTuple [PyStr ''albums'', PyDict []];
       s2 = snd (resolve_folder env_sim payload_albums s1);
       s3 = snd (upload_step env_sim ''/tmp/tmpa1b2c3'' folder s2);
       file_on_mega = PyTuple [PyStr ''tmpa1b2c3'', PyDict []];
       s4 = snd (mega_find env_sim (PyStr (basename ''/tmp/tmpa1b2c3'')) s3)
   in fetch_stage env_sim ev_albums s_albums
        = (Continue (payload_albums, ''pic.jpg'', ''/tmp/tmpa1b2c3''), s1) \<and>
      resolve_folder env_sim payload_albums s1 = (Continue folder, s2) \<and>
      upload_step env_sim ''/tmp/tmpa1b2c3'' folder s2 = (None, s3) \<and>
      mega_find env_sim (PyStr (basename ''/tmp/tmpa1b2c3'')) s3 = (Inr file_on_mega, s4) \<and>
      TempFile ''/tmp/tmpa1b2c3'' \<in> set (trace s1) \<and>
      (\<exists>url p. getitem payload_albums ''url'' = Inr url \<and> urlparse_path env_sim url = Inr p \<and>
         filter is_mega_call (trace (snd (upload_file_by_url_to_mega env_sim ev_albums PyNone s_albums)))
           = filter is_mega_call (trace s3)
               @ [MegaFind (PyStr (basename ''/tmp/tmpa1b2c3'')), MegaRename file_on_mega (basename p)])"
proof -
  let ?s1 = "snd (fetch_stage env_sim ev_albums s_albums)"
  let ?folder = "PyTuple [PyStr ''albums'', PyDict []]"
  let ?s2 = "snd (resolve_folder env_sim payload_albums ?s1)"
  let ?s3 = "snd (upload_step env_sim ''/tmp/tmpa1b2c3'' ?folder ?s2)"
  let ?fm = "PyTuple [PyStr ''tmpa1b2c3'', PyDict []]"
  let ?s4 = "snd (mega_find env_sim (PyStr (basename ''/tmp/tmpa1b2c3'')) ?s3)"
  have "fst (fetch_stage env_sim ev_albums s_albums)
          = Continue (payload_albums, ''pic.jpg'', ''/tmp/tmpa1b2c3'')"
    by (simp add: handler_defs prims sim_defs)
  then have a: "fetch_stage env_sim ev_albums s_albums
          = (Continue (payload_albums, ''pic.jpg'', ''/tmp/tmpa1b2c3''), ?s1)"
    by (simp add: prod_eq_iff)
  have "fst (resolve_folder env_sim payload_albums ?s1) = Continue ?folder"
    by (simp add: handler_defs prims sim_defs)
  then have b: "resolve_folder env_sim payload_albums ?s1 = (Continue ?folder, ?s2)"
    by (simp add: prod_eq_iff)
  have "fst (upload_step env_sim ''/tmp/tmpa1b2c3'' ?folder ?s2) = None"
    by (simp add: handler_defs prims sim_defs)
  then have c: "upload_step env_sim ''/tmp/tmpa1b2c3'' ?folder ?s2 = (None, ?s3)"
    by (simp add: prod_eq_iff)
  have "fst (mega_find env_sim (PyStr (basename ''/tmp/tmpa1b2c3'')) ?s3) = Inr ?fm"
    by (simp add: handler_defs prims sim_defs)
  then have d: "mega_find env_sim (PyStr (basename ''/tmp/tmpa1b2c3'')) ?s3 = (Inr ?fm, ?s4)"
    by (simp add: prod_eq_iff)
  show ?thesis
    unfolding Let_def
    using a b c d
      rename_uses_temporary_basename_and_url_basename [OF a b c d, of PyNone]
    by blast
qed

section \<open>A folder that is not found by name\<close>

text \<open>
  C10 asks that, when the name-based lookup of the payload's folder yields a falsy value,
  the handler neither fails nor reports an error, uploads the file to the account root,
  and can return 0. On the simulated account where that lookup finds nothing after the
  folder was created: the resolution block goes on with \<open>None\<close> and the upload is
  called without a destination, but the path it is given holds no file (line 138 removed
  it), so the upload raises, and the handler makes an exception report and returns 1.
\<close>

theorem falsy_folder_run_reports_and_returns_1:
  "fst (fetch_stage env_folder_not_found ev_albums s_init)
     = Continue (payload_albums, ''pic.jpg'', ''/tmp/tmpa1b2c3'') \<and>
   getitem payload_albums ''folder'' = Inr (PyStr ''albums'') \<and>
   fst (resolve_folder_body env_folder_not_found payload_albums
          (snd (fetch_stage env_folder_not_found ev_albums s_init))) = Inr PyNone \<and>
   fs (snd (fetch_stage env_folder_not_found ev_albums s_init)) ''/tmp/tmpa1b2c3'' = None \<and>
   filter is_mega_call
     (trace (snd (upload_file_by_url_to_mega env_folder_not_found ev_albums PyNone s_init)))
     = [MegaLogin (PyStr ''user'') (PyStr ''secret''), MegaFindPath (PyStr ''albums''),
        MegaCreateFolder (PyStr ''albums''), MegaFind (PyStr ''albums''),
        MegaUpload ''/tmp/tmpa1b2c3'' None] \<and>
   fst (upload_file_by_url_to_mega env_folder_not_found ev_albums PyNone s_init) = Inr 1 \<and>
   filter is_report
     (trace (snd (upload_file_by_url_to_mega env_folder_not_found ev_albums PyNone s_init)))
     = [ReportException]"
  by (simp add: handler_defs prims sim_defs)

text \<open>
  The local file system is not touched after the download, so an uploader that raises on
  a path without a file makes every invocation that reaches the upload return 1: no
  invocation returns 0. What holds by design is the rest: a falsy value from the
  resolution does not fail the block, adds no report and no error record, and the upload
  is called without a destination.
\<close>

lemma call_fs:
  "call e f s = (r, s') \<Longrightarrow> fs s' = fs s"
  by (auto simp: prims split: prod.splits)

lemma get_mega_client_fs:
  "get_mega_client env s = (r, s') \<Longrightarrow> fs s' = fs s"
  by (auto simp: get_mega_client_def get_vars_dict_def login_body_def prims
      split: prod.splits sum.splits option.splits)

lemma mega_call_fs:
  "mega_call env e f s = (r, s') \<Longrightarrow> fs s' = fs s"
proof (cases "get_mega_client env s")
  case (Pair r0 s0)
  then have s0: "fs s0 = fs s" by (rule get_mega_client_fs)
  show "mega_call env e f s = (r, s') \<Longrightarrow> fs s' = fs s"
    using Pair s0 by (cases r0) (auto simp: mega_call_def dest: call_fs)
qed

lemma resolve_folder_body_fs:
  assumes "resolve_folder_body env data s = (r, s')"
  shows "fs s' = fs s"
proof (cases "get_mega_client env s")
  case (Pair r0 s0)
  then have s0: "fs s0 = fs s" by (rule get_mega_client_fs)
  show ?thesis
  proof (cases r0)
    case (Inl ex)
    then show ?thesis
      using assms Pair s0
      by (auto simp: resolve_folder_body_def split: sum.splits if_splits)
  next
    case (Inr m)
    have log_fs: "\<And>l t x. fs (log l t x) = fs x" by (simp add: prims)
    show ?thesis
      using assms Pair s0 Inr
      by (auto simp: resolve_folder_body_def mega_create_folder_def mega_find_def log_fs
          split: sum.splits if_splits prod.splits
          dest!: call_fs mega_call_fs)
  qed
qed

lemma resolve_folder_fs:
  assumes "resolve_folder env data s = (Continue folder, s')"
  shows "fs s' = fs s"
  using assms
  by (auto simp: resolve_folder_def split: prod.splits sum.splits dest: resolve_folder_body_fs)

lemma upload_step_needs_file:
  assumes nofile: "fs s path = None"
    and needs: "\<And>w dest. \<exists>e. fst (m_upload env w path None dest) = Inl e"
  shows "\<exists>s'. upload_step env path folder s = (Some 1, s')"
proof (cases "get_mega_client env s")
  case (Pair r0 s0)
  then have s0: "fs s0 path = None" using get_mega_client_fs [OF Pair] nofile by simp
  have up: "\<exists>e s'. call (MegaUpload path dest) (\<lambda>w. m_upload env w path None dest) s0 = (Inl e, s')"
    for dest
  proof -
    obtain e where "fst (m_upload env (world s0) path None dest) = Inl e"
      using needs by blast
    then show ?thesis
      by (cases "m_upload env (world s0) path None dest") (auto simp: call_def)
  qed
  show ?thesis
  proof (cases r0)
    case (Inl ex)
    then show ?thesis using Pair by (simp add: upload_step_def upload_body_def)
  next
    case (Inr m)
    show ?thesis
    proof (cases "truthy folder")
      case True
      show ?thesis
      proof (cases "index0 folder")
        case (Inl ex)
        then show ?thesis using Pair Inr True by (simp add: upload_step_def upload_body_def)
      next
        case (Inr dest)
        obtain e s' where "call (MegaUpload path (Some dest)) (\<lambda>w. m_upload env w path None (Some dest)) s0 = (Inl e, s')"
          using up by blast
        then show ?thesis
          using Pair \<open>r0 = Inr m\<close> True Inr s0 by (simp add: upload_step_def upload_body_def)
      qed
    next
      case False
      obtain e s' where "call (MegaUpload path None) (\<lambda>w. m_upload env w path None None) s0 = (Inl e, s')"
        using up by blast
      then show ?thesis
        using Pair Inr False s0 by (simp add: upload_step_def upload_body_def)
    qed
  qed
qed

lemma handler_never_returns_0_when_upload_needs_file:
  assumes needs: "\<And>w path dest. \<exists>e. fst (m_upload env w path None dest) = Inl e"
  shows "fst (upload_file_by_url_to_mega env event context s) \<noteq> Inr 0"
proof (cases "fetch_stage env event s")
  case (Pair o1 s1)
  show ?thesis
  proof (cases o1)
    case (Raise ex)
    then show ?thesis using Pair by (simp add: upload_file_by_url_to_mega_def)
  next
    case (Return r)
    then have "r = 1" using Pair fetch_stage_returns_1 by blast
    then show ?thesis using Pair Return by (simp add: upload_file_by_url_to_mega_def)
  next
    case (Continue x)
    obtain data name path where x: "x = (data, name, path)" by (cases x)
    have nofile: "fs s1 path = None"
      using fetch_stage_ContinueD [of env event s data name path s1] Pair Continue x by auto
    obtain o2 s2 where rf: "resolve_folder env data s1 = (o2, s2)"
      by (cases "resolve_folder env data s1")
    show ?thesis
    proof (cases o2)
      case (Raise ex)
      then show ?thesis using Pair Continue x rf
        by (simp add: upload_file_by_url_to_mega_def store_stage_def)
    next
      case (Return r)
      then have "r = 1" using rf
        by (auto simp: resolve_folder_def split: prod.splits sum.splits)
      then show ?thesis using Pair Continue x rf Return
        by (simp add: upload_file_by_url_to_mega_def store_stage_def)
    next
      case (Continue folder)
      then have "fs s2 path = None"
        using resolve_folder_fs [of env data s1 folder s2] rf nofile by simp
      then obtain s3 where "upload_step env path folder s2 = (Some 1, s3)"
        using upload_step_needs_file [of s2 path env folder] needs by blast
      then show ?thesis using Pair \<open>o1 = Continue x\<close> x rf Continue
        by (simp add: upload_file_by_url_to_mega_def store_stage_def)
    qed
  qed
qed

lemma env_folder_not_found_needs_file:
  "\<exists>e. fst (m_upload env_folder_not_found w path None dest) = Inl e"
  by (simp add: sim_defs)

lemma simulated_account_never_returns_0:
  "fst (upload_file_by_url_to_mega env_folder_not_found event context s) \<noteq> Inr 0"
  by (rule handler_never_returns_0_when_upload_needs_file) (rule env_folder_not_found_needs_file)

lemma falsy_folder_goes_on_to_root_upload:
  assumes reach: "fetch_stage env event s = (Continue (data, name, path), s1)"
    and fld: "getitem data ''folder'' = Inr f"
    and res: "resolve_folder_body env data s1 = (Inr folder, s2)"
    and falsy: "\<not> truthy folder"
  shows "resolve_folder env data s1 = (Continue folder, s2) \<and>
         filter is_report (trace s2) = filter is_report (trace s1) \<and>
         filter is_error_log (trace s2) = filter is_error_log (trace s1) \<and>
         (\<exists>calls. filter is_mega_call (trace s2) = calls @ [MegaFind f]) \<and>
         fs s2 path = None \<and>
         upload_body env path folder s2
           = call (MegaUpload path None) (\<lambda>w. m_upload env w path None None) s2"
proof -
  obtain r0 s0 where g: "get_mega_client env s1 = (r0, s0)"
    by (cases "get_mega_client env s1")
  have c: "contains ''folder'' data = Inr True"
    using fld by (rule getitem_folder_contains)
  obtain m where r0: "r0 = Inr m"
    using res g c by (cases r0) (auto simp: resolve_folder_body_def)
  note eq = resolve_folder_body_eq [OF fld g [unfolded r0]]
  note quiet = get_mega_client_ok_quiet [OF g [unfolded r0]]
  have set2: "MEGA_CLIENT s2 \<noteq> None"
    using fld res by (rule resolve_folder_body_slot)
  have q1: "resolve_folder env data s1 = (Continue folder, s2)"
    using res by (simp add: resolve_folder_def)
  have q2: "filter is_report (trace s2) = filter is_report (trace s1)"
    using res quiet unfolding eq
    by (auto simp: prims split: prod.splits sum.splits if_splits)
  have q3: "filter is_error_log (trace s2) = filter is_error_log (trace s1)"
    using res quiet unfolding eq
    by (auto simp: prims split: prod.splits sum.splits if_splits)
  have q4: "\<exists>calls. filter is_mega_call (trace s2) = calls @ [MegaFind f]"
    using res unfolding eq
    by (auto simp: prims split: prod.splits sum.splits if_splits)
  have q5: "fs s2 path = None"
    using fetch_stage_ContinueD [OF reach] resolve_folder_body_fs [OF res] by auto
  have q6: "upload_body env path folder s2
           = call (MegaUpload path None) (\<lambda>w. m_upload env w path None None) s2"
    using falsy set2 q5 by (simp add: upload_body_def get_mega_client_set)
  from q1 q2 q3 q4 q5 q6 show ?thesis by blast
qed

end
